theory Spec2Isabelle
  imports Complex_Main
begin

section \<open>Numbers and strings of the host language\<close>

text \<open>
  The audio player of \<^verbatim>\<open>script.js\<close> computes with JavaScript Numbers and
  strings. A Number is \<open>NaN\<close>, one of the two infinities, or a finite value; a finite
  value is taken here as the rational number it denotes, and arithmetic on finite values
  is exact. The two zeros are one value: the player never divides by a zero, and both
  zeros print as \<open>0\<close>. The result of \<open>Math.floor\<close> is an integral Number, so it is kept
  over \<open>int\<close>; such a Number prints as a decimal numeral.
\<close>

datatype 'a jsnum = NaN | PosInf | NegInf | Fin 'a

datatype jsval = Num "int jsnum" | Str string

definition isNaN :: "'a jsnum \<Rightarrow> bool" where
  "isNaN x = (case x of NaN \<Rightarrow> True | _ \<Rightarrow> False)"

text \<open>Rounding towards zero, as the remainder operator \<open>%\<close> uses it.\<close>

definition trunc :: "rat \<Rightarrow> int" where
  "trunc q = (if 0 \<le> q then \<lfloor>q\<rfloor> else \<lceil>q\<rceil>)"

text \<open>The operator \<open>/\<close> on Numbers.\<close>

fun js_div :: "rat jsnum \<Rightarrow> rat jsnum \<Rightarrow> rat jsnum" where
  "js_div NaN y = NaN"
| "js_div x NaN = NaN"
| "js_div (Fin a) (Fin b) =
     (if b = 0 then (if a = 0 then NaN else if 0 < a then PosInf else NegInf)
      else Fin (a / b))"
| "js_div (Fin a) y = Fin 0"
| "js_div PosInf (Fin b) = (if 0 \<le> b then PosInf else NegInf)"
| "js_div NegInf (Fin b) = (if 0 \<le> b then NegInf else PosInf)"
| "js_div x y = NaN"

text \<open>
  The operator \<open>%\<close> on Numbers: the remainder of the truncated division, with the sign
  of the dividend; \<open>NaN\<close> for an infinite dividend or a zero divisor.
\<close>

fun js_rem :: "rat jsnum \<Rightarrow> rat jsnum \<Rightarrow> rat jsnum" where
  "js_rem NaN y = NaN"
| "js_rem x NaN = NaN"
| "js_rem PosInf y = NaN"
| "js_rem NegInf y = NaN"
| "js_rem (Fin a) (Fin b) =
     (if b = 0 then NaN else Fin (a - b * of_int (trunc (a / b))))"
| "js_rem (Fin a) y = Fin a"

fun Math_floor :: "rat jsnum \<Rightarrow> int jsnum" where
  "Math_floor (Fin q) = Fin \<lfloor>q\<rfloor>"
| "Math_floor NaN = NaN"
| "Math_floor PosInf = PosInf"
| "Math_floor NegInf = NegInf"

text \<open>The operator \<open><\<close> on Numbers: false as soon as one side is \<open>NaN\<close>.\<close>

fun js_less :: "('a::linorder) jsnum \<Rightarrow> 'a jsnum \<Rightarrow> bool" where
  "js_less NaN y = False"
| "js_less x NaN = False"
| "js_less (Fin a) (Fin b) = (a < b)"
| "js_less x NegInf = False"
| "js_less PosInf y = False"
| "js_less x y = True"

definition digit_char :: "nat \<Rightarrow> char" where
  "digit_char d = ''0123456789'' ! d"

fun digits :: "nat \<Rightarrow> string" where
  "digits n =
     (if n < 10 then [digit_char n] else digits (n div 10) @ [digit_char (n mod 10)])"

declare digits.simps [simp del]

fun Number_toString :: "int jsnum \<Rightarrow> string" where
  "Number_toString NaN = ''NaN''"
| "Number_toString PosInf = ''Infinity''"
| "Number_toString NegInf = ''-Infinity''"
| "Number_toString (Fin i) =
     (if i < 0 then ''-'' @ digits (nat (- i)) else digits (nat i))"

fun ToString :: "jsval \<Rightarrow> string" where
  "ToString (Str s) = s"
| "ToString (Num n) = Number_toString n"

fun num_add :: "int jsnum \<Rightarrow> int jsnum \<Rightarrow> int jsnum" where
  "num_add NaN y = NaN"
| "num_add x NaN = NaN"
| "num_add (Fin a) (Fin b) = Fin (a + b)"
| "num_add PosInf NegInf = NaN"
| "num_add NegInf PosInf = NaN"
| "num_add PosInf y = PosInf"
| "num_add NegInf y = NegInf"
| "num_add (Fin a) y = y"

text \<open>
  The operator \<open>+\<close>: the sum of two Numbers, and the concatenation of the operands'
  strings as soon as one of them is a string.
\<close>

fun js_plus :: "jsval \<Rightarrow> jsval \<Rightarrow> jsval" where
  "js_plus (Num a) (Num b) = Num (num_add a b)"
| "js_plus a b = Str (ToString a @ ToString b)"

section \<open>The player\<close>

subsection \<open>formatTime\<close>

text \<open>
  \<^verbatim>\<open>function formatTime(seconds) {
    if (isNaN(seconds)) return "0:00";
    let min = Math.floor(seconds / 60);
    let sec = Math.floor(seconds % 60);
    return min + ":" + (sec < 10 ? '0' + sec : sec);
}\<close>
\<close>

definition formatTime :: "rat jsnum \<Rightarrow> jsval" where
  "formatTime seconds =
     (if isNaN seconds then Str ''0:00''
      else
        (let mins = Math_floor (js_div seconds (Fin 60));
             secs = Math_floor (js_rem seconds (Fin 60))
         in js_plus (js_plus (Num mins) (Str '':''))
              (if js_less secs (Fin 10) then js_plus (Str ''0'') (Num secs) else Num secs)))"

subsection \<open>The page elements\<close>

text \<open>
  The five elements the script binds at top level (\<open>audio\<close>, \<open>playBtn\<close>, \<open>seekBar\<close>,
  \<open>currentTimeDisplay\<close>, \<open>totalTimeDisplay\<close>) are one record, with a field for each
  property the player reads or writes. An assignment stores the assigned value; a text
  sink (\<open>innerHTML\<close>) stores the string of the assigned value. The calls the player
  makes on the media element are logged in \<open>audio_calls\<close>.
\<close>

datatype command = Play | Pause

record player =
  audio_duration :: "rat jsnum"
  audio_currentTime :: "rat jsnum"
  audio_paused :: bool
  audio_readyState :: nat
  audio_calls :: "command list"
  seekBar_max :: "rat jsnum"
  seekBar_value :: "rat jsnum"
  playBtn_innerHTML :: string
  currentTimeDisplay_innerHTML :: string
  totalTimeDisplay_innerHTML :: string

text \<open>
  The media element's two commands: each takes effect at once on the \<open>paused\<close> flag.
\<close>

definition audio_play :: "player \<Rightarrow> player" where
  "audio_play st = st\<lparr>audio_paused := False, audio_calls := audio_calls st @ [Play]\<rparr>"

definition audio_pause :: "player \<Rightarrow> player" where
  "audio_pause st = st\<lparr>audio_paused := True, audio_calls := audio_calls st @ [Pause]\<rparr>"

text \<open>
  The label \<open>"\<triangleright>"\<close> of the source is the code point U+25B6, here the three bytes
  of its UTF-8 encoding, as the source file holds it.
\<close>

definition play_glyph :: string where
  "play_glyph = [CHR 0xE2, CHR 0x96, CHR 0xB6]"

subsection \<open>The operations\<close>

text \<open>
  \<^verbatim>\<open>function setDuration() {
    seekBar.max = audio.duration;
    totalTimeDisplay.innerHTML = formatTime(audio.duration);
}\<close>
\<close>

definition setDuration :: "player \<Rightarrow> player" where
  "setDuration st =
     st\<lparr>seekBar_max := audio_duration st,
        totalTimeDisplay_innerHTML := ToString (formatTime (audio_duration st))\<rparr>"

text \<open>
  \<^verbatim>\<open>function togglePlay() {
    if (audio.paused) { audio.play(); playBtn.innerHTML = "||"; }
    else { audio.pause(); playBtn.innerHTML = "\<triangleright>"; }
}\<close>
\<close>

definition togglePlay :: "player \<Rightarrow> player" where
  "togglePlay st =
     (if audio_paused st then (audio_play st)\<lparr>playBtn_innerHTML := ''||''\<rparr>
      else (audio_pause st)\<lparr>playBtn_innerHTML := play_glyph\<rparr>)"

text \<open>
  \<^verbatim>\<open>audio.addEventListener('timeupdate', () => {
    if (!audio.paused) {
        seekBar.value = audio.currentTime;
        currentTimeDisplay.innerHTML = formatTime(audio.currentTime);
    }
});\<close>
\<close>

definition on_timeupdate :: "player \<Rightarrow> player" where
  "on_timeupdate st =
     (if \<not> audio_paused st then
        st\<lparr>seekBar_value := audio_currentTime st,
           currentTimeDisplay_innerHTML := ToString (formatTime (audio_currentTime st))\<rparr>
      else st)"

text \<open>
  \<^verbatim>\<open>function handleSeek() {
    audio.currentTime = seekBar.value;
    currentTimeDisplay.innerHTML = formatTime(audio.currentTime);
}\<close>
  The second statement reads the property the first one wrote.
\<close>

definition handleSeek :: "player \<Rightarrow> player" where
  "handleSeek st =
     (let st1 = st\<lparr>audio_currentTime := seekBar_value st\<rparr>
      in st1\<lparr>currentTimeDisplay_innerHTML := ToString (formatTime (audio_currentTime st1))\<rparr>)"

text \<open>
  The listener for \<open>loadedmetadata\<close> calls \<open>setDuration\<close>; the top-level code calls it
  too when the metadata is already there (\<open>audio.readyState >= 1\<close>).
\<close>

definition on_loadedmetadata :: "player \<Rightarrow> player" where
  "on_loadedmetadata st = setDuration st"

definition script_init :: "player \<Rightarrow> player" where
  "script_init st = (if 1 \<le> audio_readyState st then setDuration st else st)"

text \<open>
  The media element learning its duration \<open>d\<close>: the duration is set and the ready state
  becomes 1 (metadata available). The two orders in which this can meet the start of the
  script: before it, so that no listener is attached yet and only the top-level check
  runs; or after it, so that the listener runs.
\<close>

definition metadata_ready :: "rat jsnum \<Rightarrow> player \<Rightarrow> player" where
  "metadata_ready d st = st\<lparr>audio_duration := d, audio_readyState := 1\<rparr>"

definition ready_before_init :: "rat jsnum \<Rightarrow> player \<Rightarrow> player" where
  "ready_before_init d st = script_init (metadata_ready d st)"

definition ready_after_init :: "rat jsnum \<Rightarrow> player \<Rightarrow> player" where
  "ready_after_init d st = on_loadedmetadata (metadata_ready d (script_init st))"

subsection \<open>The format of the specification\<close>

text \<open>
  The specification's \<open>M:SS\<close>: the decimal numeral of \<open>floor (s / 60)\<close>, a colon, and
  \<open>floor (s mod 60)\<close> padded with zeros on the left to two characters.
\<close>

definition rat_mod :: "rat \<Rightarrow> rat \<Rightarrow> rat" where
  "rat_mod s m = s - m * of_int \<lfloor>s / m\<rfloor>"

definition pad2 :: "nat \<Rightarrow> string" where
  "pad2 n = replicate (2 - length (digits n)) (CHR ''0'') @ digits n"

definition spec_format :: "rat \<Rightarrow> string" where
  "spec_format s = digits (nat \<lfloor>s / 60\<rfloor>) @ '':'' @ pad2 (nat \<lfloor>rat_mod s 60\<rfloor>)"

definition is_digit :: "char \<Rightarrow> bool" where
  "is_digit c = (c \<in> set ''0123456789'')"

text \<open>A string has the form \<open>M:SS\<close>: one digit or more, a colon, two digits.\<close>

definition M_SS_form :: "string \<Rightarrow> bool" where
  "M_SS_form s =
     (takeWhile is_digit s \<noteq> [] \<and>
      (case dropWhile is_digit s of
         [c, a, b] \<Rightarrow> c = CHR '':'' \<and> is_digit a \<and> is_digit b
       | _ \<Rightarrow> False))"

text \<open>The label the specification derives from the \<open>paused\<close> flag.\<close>

definition PlaybackLabel :: "bool \<Rightarrow> string" where
  "PlaybackLabel p = (if p then play_glyph else ''||'')"

text \<open>
  A state of the page for the examples: nothing loaded, paused, the scrub control at its
  start.
\<close>

definition page0 :: player where
  "page0 =
     \<lparr>audio_duration = NaN, audio_currentTime = Fin 0, audio_paused = True,
      audio_readyState = 0, audio_calls = [],
      seekBar_max = Fin 100, seekBar_value = Fin 0,
      playBtn_innerHTML = play_glyph,
      currentTimeDisplay_innerHTML = ''0:00'', totalTimeDisplay_innerHTML = ''0:00''\<rparr>"

section \<open>Decimal numerals\<close>

lemma digit_char_is_digit: "d < 10 \<Longrightarrow> is_digit (digit_char d)"
proof -
  assume "d < 10"
  then have "d \<in> {0, 1, 2, 3, 4, 5, 6, 7, 8, 9}" by auto
  then show ?thesis by (auto simp: is_digit_def digit_char_def)
qed

lemma digits_small: "n < 10 \<Longrightarrow> digits n = [digit_char n]"
  by (simp add: digits.simps)

lemma digits_big: "10 \<le> n \<Longrightarrow> digits n = digits (n div 10) @ [digit_char (n mod 10)]"
  by (subst digits.simps) simp

lemma digits_two:
  "10 \<le> n \<Longrightarrow> n < 100 \<Longrightarrow> digits n = [digit_char (n div 10), digit_char (n mod 10)]"
  by (simp add: digits_big digits_small)

lemma digits_nonempty: "digits n \<noteq> []"
  by (subst digits.simps) simp

lemma digits_all_digit: "list_all is_digit (digits n)"
proof (induction n rule: digits.induct)
  case (1 n)
  show ?case
  proof (cases "n < 10")
    case True
    then show ?thesis by (simp add: digits_small digit_char_is_digit)
  next
    case False
    then have "list_all is_digit (digits (n div 10))" using 1 by simp
    moreover have "is_digit (digit_char (n mod 10))" by (simp add: digit_char_is_digit)
    ultimately show ?thesis using False by (simp add: digits_big)
  qed
qed

lemma takeWhile_digits:
  "x \<noteq> [] \<Longrightarrow> \<not> is_digit (hd x) \<Longrightarrow>
   takeWhile is_digit (digits n @ x) = digits n \<and> dropWhile is_digit (digits n @ x) = x"
  using digits_all_digit [of n]
  by (cases x) (simp_all add: list_all_iff)

lemma colon_not_digit: "\<not> is_digit (CHR '':'')"
  by (simp add: is_digit_def)

lemma pad2_small: "n < 10 \<Longrightarrow> pad2 n = [CHR ''0'', digit_char n]"
  by (simp add: pad2_def digits_small)

lemma pad2_two:
  "10 \<le> n \<Longrightarrow> n < 100 \<Longrightarrow> pad2 n = [digit_char (n div 10), digit_char (n mod 10)]"
  by (simp add: pad2_def digits_two)

lemma pad2_form: "n < 100 \<Longrightarrow> \<exists>a b. pad2 n = [a, b] \<and> is_digit a \<and> is_digit b"
proof (cases "n < 10")
  case True
  then show ?thesis by (simp add: pad2_small digit_char_is_digit) (simp add: is_digit_def)
next
  case False
  assume "n < 100"
  then show ?thesis using False by (simp add: pad2_two digit_char_is_digit)
qed

section \<open>formatTime\<close>

lemma trunc_nonneg: "0 \<le> q \<Longrightarrow> trunc q = \<lfloor>q\<rfloor>"
  by (simp add: trunc_def)

lemma rat_mod_60_bounds: "0 \<le> rat_mod s 60 \<and> rat_mod s 60 < 60"
proof -
  have "of_int \<lfloor>s / 60\<rfloor> \<le> s / 60" by (rule of_int_floor_le)
  moreover have "s / 60 < of_int \<lfloor>s / 60\<rfloor> + 1" by linarith
  ultimately show ?thesis by (simp add: rat_mod_def field_simps)
qed

lemma secs_range: "0 \<le> \<lfloor>rat_mod s 60\<rfloor> \<and> \<lfloor>rat_mod s 60\<rfloor> < 60"
  using rat_mod_60_bounds [of s] by (simp add: floor_less_iff)

lemma formatTime_Fin:
  "formatTime (Fin s) =
     (let mins = \<lfloor>s / 60\<rfloor>; secs = \<lfloor>s - 60 * of_int (trunc (s / 60))\<rfloor>
      in Str (Number_toString (Fin mins) @ '':'' @
              (if secs < 10 then ''0'' @ Number_toString (Fin secs)
               else Number_toString (Fin secs))))"
  by (simp add: formatTime_def isNaN_def Let_def)

lemma formatTime_Fin_nonneg:
  assumes "0 \<le> s"
  shows "formatTime (Fin s) = Str (spec_format s)"
proof -
  define k where "k = \<lfloor>rat_mod s 60\<rfloor>"
  have k: "0 \<le> k" "k < 60" using secs_range [of s] by (simp_all add: k_def)
  have m: "0 \<le> \<lfloor>s / 60\<rfloor>" using assms by simp
  have tr: "s - 60 * of_int (trunc (s / 60)) = rat_mod s 60"
    using assms by (simp add: trunc_nonneg rat_mod_def)
  have pad: "(if k < 10 then ''0'' @ digits (nat k) else digits (nat k)) = pad2 (nat k)"
  proof (cases "k < 10")
    case True
    then show ?thesis using k by (simp add: pad2_small digits_small)
  next
    case False
    then have "10 \<le> nat k" "nat k < 100" using k by simp_all
    then show ?thesis using False by (simp add: pad2_two digits_two)
  qed
  have "formatTime (Fin s) =
      Str (digits (nat \<lfloor>s / 60\<rfloor>) @ '':'' @
           (if k < 10 then ''0'' @ digits (nat k) else digits (nat k)))"
    using m k unfolding formatTime_Fin tr k_def [symmetric] Let_def by simp
  then have "formatTime (Fin s) = Str (digits (nat \<lfloor>s / 60\<rfloor>) @ '':'' @ pad2 (nat k))"
    by (simp only: pad)
  then show ?thesis unfolding spec_format_def k_def .
qed


text \<open>
  For a non-negative input the result has the form \<open>M:SS\<close>; for a negative one it
  starts with a minus sign and has not.
\<close>

lemma formatTime_nonneg_form:
  assumes "0 \<le> s"
  shows "M_SS_form (ToString (formatTime (Fin s)))"
proof -
  have "\<lfloor>rat_mod s 60\<rfloor> < 60" using secs_range [of s] by blast
  then have "nat \<lfloor>rat_mod s 60\<rfloor> < 100" by linarith
  then obtain a b where ab: "pad2 (nat \<lfloor>rat_mod s 60\<rfloor>) = [a, b]" "is_digit a" "is_digit b"
    using pad2_form by blast
  have "takeWhile is_digit (digits (nat \<lfloor>s / 60\<rfloor>) @ [CHR '':'', a, b])
          = digits (nat \<lfloor>s / 60\<rfloor>) \<and>
        dropWhile is_digit (digits (nat \<lfloor>s / 60\<rfloor>) @ [CHR '':'', a, b])
          = [CHR '':'', a, b]"
    by (rule takeWhile_digits) (simp_all add: colon_not_digit)
  then show ?thesis
    using ab
    by (simp add: formatTime_Fin_nonneg [OF assms] spec_format_def M_SS_form_def
          digits_nonempty)
qed

lemma formatTime_negative_form:
  assumes "s < 0"
  shows "\<not> M_SS_form (ToString (formatTime (Fin s)))"
proof -
  have "\<lfloor>s / 60\<rfloor> < 0" using assms by (simp add: floor_less_iff)
  then have "hd (ToString (formatTime (Fin s))) = CHR ''-''"
    by (simp add: formatTime_Fin Let_def)
  moreover have "ToString (formatTime (Fin s)) \<noteq> []"
    by (simp add: formatTime_Fin Let_def digits_nonempty)
  moreover have "\<not> is_digit (CHR ''-'')" by (simp add: is_digit_def)
  ultimately have "takeWhile is_digit (ToString (formatTime (Fin s))) = []"
    by (cases "ToString (formatTime (Fin s))") simp_all
  then show ?thesis by (simp add: M_SS_form_def)
qed



text \<open>
  C5: \<open>formatTime\<close> applied to \<open>NaN\<close> returns exactly the string \<open>0:00\<close>; the function
  has no raising branch, and the result is not \<open>NaN:NaN\<close>.
\<close>

theorem formatTime_NaN: "formatTime NaN = Str ''0:00''"
  by (simp add: formatTime_def isNaN_def)

text \<open>
  C6, as stated: every non-finite seconds value (\<open>NaN\<close>, positive or negative infinity)
  gives the fallback string \<open>0:00\<close>. The guard of \<open>formatTime\<close> is \<open>isNaN\<close>, which
  an infinity passes: positive infinity does not give the fallback.
\<close>

theorem formatTime_PosInf_not_fallback: "formatTime PosInf \<noteq> Str ''0:00''"
  by (simp add: formatTime_def isNaN_def)

text \<open>
  C6, amended: of the non-finite seconds values, \<open>NaN\<close> gives the fallback string
  \<open>0:00\<close>; the infinities raise no error either, and give \<open>Infinity:NaN\<close> and
  \<open>-Infinity:NaN\<close>.
\<close>

theorem formatTime_nonfinite:
  "formatTime NaN = Str ''0:00'' \<and> formatTime PosInf = Str ''Infinity:NaN'' \<and>
   formatTime NegInf = Str ''-Infinity:NaN''"
  by (simp add: formatTime_def isNaN_def)

text \<open>
  C10: \<open>formatTime\<close> neither clamps a negative finite input nor handles its sign: there
  is a negative input whose output is not of the form \<open>M:SS\<close>, and \<open>formatTime (-1)\<close>
  is \<open>-1:0-1\<close>.
\<close>

theorem formatTime_negative_not_M_SS:
  "formatTime (Fin (- 1)) = Str ''-1:0-1'' \<and>
   (\<exists>s. s < 0 \<and> \<not> M_SS_form (ToString (formatTime (Fin s))))"
proof -
  have v: "formatTime (Fin (- 1)) = Str ''-1:0-1''" by code_simp
  have "\<not> M_SS_form ''-1:0-1''" by (simp add: M_SS_form_def is_digit_def)
  then have "(- 1 :: rat) < 0 \<and> \<not> M_SS_form (ToString (formatTime (Fin (- 1))))"
    by (simp add: v)
  then show ?thesis using v by blast
qed

section \<open>The handlers\<close>

text \<open>
  C1: for every time value \<open>t\<close>, when the media element is not paused and a
  \<open>timeupdate\<close> notification arrives with \<open>currentTime = t\<close>, the handler sets the scrub
  control's value to \<open>t\<close> and the elapsed-time display to \<open>formatTime t\<close>.
\<close>

theorem timeupdate_sync:
  assumes "\<not> audio_paused st" and "audio_currentTime st = t"
  shows "seekBar_value (on_timeupdate st) = t \<and>
         currentTimeDisplay_innerHTML (on_timeupdate st) = ToString (formatTime t)"
  using assms by (simp add: on_timeupdate_def)

theorem timeupdate_sync_witness:
  "\<not> audio_paused (page0\<lparr>audio_paused := False, audio_currentTime := Fin (427 / 10)\<rparr>) \<and>
   seekBar_value (on_timeupdate (page0\<lparr>audio_paused := False, audio_currentTime := Fin (427 / 10)\<rparr>))
     = Fin (427 / 10) \<and>
   currentTimeDisplay_innerHTML
     (on_timeupdate (page0\<lparr>audio_paused := False, audio_currentTime := Fin (427 / 10)\<rparr>)) = ''0:42''"
proof -
  let ?s = "page0\<lparr>audio_paused := False, audio_currentTime := Fin (427 / 10)\<rparr>"
  have f: "ToString (formatTime (Fin (427 / 10))) = ''0:42''" by code_simp
  have h1: "\<not> audio_paused ?s" by simp
  have h2: "audio_currentTime ?s = Fin (427 / 10)" by simp
  show ?thesis using timeupdate_sync [OF h1 h2] h1 f by simp
qed

text \<open>
  C2: for every scrub value \<open>t\<close>, \<open>handleSeek\<close> with the scrub control at \<open>t\<close> sets the
  media element's \<open>currentTime\<close> to \<open>t\<close> and the elapsed-time display to \<open>formatTime t\<close>
  in the same step: both hold in the state \<open>handleSeek\<close> returns, with no notification
  in between.
\<close>

theorem handleSeek_correct:
  assumes "seekBar_value st = t"
  shows "audio_currentTime (handleSeek st) = t \<and>
         currentTimeDisplay_innerHTML (handleSeek st) = ToString (formatTime t)"
  using assms by (simp add: handleSeek_def Let_def)

theorem handleSeek_correct_witness:
  "seekBar_value (page0\<lparr>seekBar_value := Fin 100\<rparr>) = Fin 100 \<and>
   audio_currentTime (handleSeek (page0\<lparr>seekBar_value := Fin 100\<rparr>)) = Fin 100 \<and>
   currentTimeDisplay_innerHTML (handleSeek (page0\<lparr>seekBar_value := Fin 100\<rparr>)) = ''1:40''"
proof -
  have f: "ToString (formatTime (Fin 100)) = ''1:40''" by code_simp
  have h: "seekBar_value (page0\<lparr>seekBar_value := Fin 100\<rparr>) = Fin 100" by simp
  show ?thesis using handleSeek_correct [OF h] h f by simp
qed

text \<open>
  C3: when the media element is paused, \<open>togglePlay\<close> issues a play command and sets the
  button label to the playing glyph \<open>||\<close>; when it is not paused, \<open>togglePlay\<close> issues a
  pause command and sets the label to the triangle U+25B6. In both cases the label is set
  in the same step as the command and is the label of the new state.
\<close>

theorem togglePlay_correct:
  "(audio_paused st \<longrightarrow>
      audio_calls (togglePlay st) = audio_calls st @ [Play] \<and>
      playBtn_innerHTML (togglePlay st) = ''||'') \<and>
   (\<not> audio_paused st \<longrightarrow>
      audio_calls (togglePlay st) = audio_calls st @ [Pause] \<and>
      playBtn_innerHTML (togglePlay st) = play_glyph) \<and>
   audio_paused (togglePlay st) = (\<not> audio_paused st) \<and>
   playBtn_innerHTML (togglePlay st) = PlaybackLabel (audio_paused (togglePlay st))"
  by (simp add: togglePlay_def audio_play_def audio_pause_def PlaybackLabel_def)

theorem togglePlay_correct_witness:
  "audio_paused page0 \<and>
   audio_calls (togglePlay page0) = [Play] \<and>
   playBtn_innerHTML (togglePlay page0) = ''||'' \<and>
   \<not> audio_paused (togglePlay page0) \<and>
   audio_calls (togglePlay (togglePlay page0)) = [Play, Pause] \<and>
   playBtn_innerHTML (togglePlay (togglePlay page0)) = play_glyph"
proof -
  have p: "audio_paused page0" "audio_calls page0 = []" by (simp_all add: page0_def)
  have q: "\<not> audio_paused (togglePlay page0)"
    using togglePlay_correct [of page0] p by simp
  show ?thesis
    using togglePlay_correct [of page0] togglePlay_correct [of "togglePlay page0"] p q
    by simp
qed

text \<open>
  C7: while the media element is paused, a delivered \<open>timeupdate\<close> notification leaves
  the scrub control's value and the elapsed-time display unchanged (the handler returns
  the state it was given).
\<close>

theorem timeupdate_paused_unchanged:
  assumes "audio_paused st"
  shows "on_timeupdate st = st \<and>
         seekBar_value (on_timeupdate st) = seekBar_value st \<and>
         currentTimeDisplay_innerHTML (on_timeupdate st) = currentTimeDisplay_innerHTML st"
  using assms by (simp add: on_timeupdate_def)

theorem timeupdate_paused_unchanged_witness:
  "audio_paused (page0\<lparr>audio_currentTime := Fin 30, seekBar_value := Fin 12\<rparr>) \<and>
   seekBar_value (on_timeupdate (page0\<lparr>audio_currentTime := Fin 30, seekBar_value := Fin 12\<rparr>))
     = Fin 12 \<and>
   currentTimeDisplay_innerHTML
     (on_timeupdate (page0\<lparr>audio_currentTime := Fin 30, seekBar_value := Fin 12\<rparr>)) = ''0:00''"
proof -
  have h: "audio_paused (page0\<lparr>audio_currentTime := Fin 30, seekBar_value := Fin 12\<rparr>)"
    by (simp add: page0_def)
  show ?thesis using timeupdate_paused_unchanged [OF h] h by (simp add: page0_def)
qed

text \<open>
  C8: \<open>setDuration\<close> is idempotent: called twice it gives the state it gives called once,
  in which the scrub control's upper bound is the duration and the total-time display is
  \<open>formatTime\<close> of it. For a duration \<open>d\<close>, the metadata becoming ready before the script
  starts and after it give the same state, with bound \<open>d\<close> and display \<open>formatTime d\<close>,
  and a further \<open>loadedmetadata\<close> notification changes nothing.
\<close>

theorem setDuration_idempotent:
  "setDuration (setDuration st) = setDuration st \<and>
   seekBar_max (setDuration st) = audio_duration st \<and>
   totalTimeDisplay_innerHTML (setDuration st) = ToString (formatTime (audio_duration st)) \<and>
   ready_after_init d st = ready_before_init d st \<and>
   on_loadedmetadata (ready_before_init d st) = ready_before_init d st \<and>
   seekBar_max (ready_before_init d st) = d \<and>
   totalTimeDisplay_innerHTML (ready_before_init d st) = ToString (formatTime d)"
  by (simp add: setDuration_def ready_after_init_def ready_before_init_def
        on_loadedmetadata_def script_init_def metadata_ready_def)

text \<open>
  C9: after each operation that updates the display, a \<open>timeupdate\<close> notification
  handled while not paused or a manual seek, the elapsed-time display is \<open>formatTime\<close>
  of the scrub control's value.
\<close>

theorem display_matches_scrub:
  "(\<not> audio_paused st \<longrightarrow>
      currentTimeDisplay_innerHTML (on_timeupdate st)
        = ToString (formatTime (seekBar_value (on_timeupdate st)))) \<and>
   currentTimeDisplay_innerHTML (handleSeek st)
     = ToString (formatTime (seekBar_value (handleSeek st)))"
  by (simp add: on_timeupdate_def handleSeek_def Let_def)

theorem display_matches_scrub_witness:
  "\<not> audio_paused (page0\<lparr>audio_paused := False, audio_currentTime := Fin 61\<rparr>) \<and>
   seekBar_value (on_timeupdate (page0\<lparr>audio_paused := False, audio_currentTime := Fin 61\<rparr>))
     = Fin 61 \<and>
   currentTimeDisplay_innerHTML
     (on_timeupdate (page0\<lparr>audio_paused := False, audio_currentTime := Fin 61\<rparr>)) = ''1:01'' \<and>
   seekBar_value (handleSeek (page0\<lparr>seekBar_value := Fin 75\<rparr>)) = Fin 75 \<and>
   currentTimeDisplay_innerHTML (handleSeek (page0\<lparr>seekBar_value := Fin 75\<rparr>)) = ''1:15''"
proof -
  let ?a = "page0\<lparr>audio_paused := False, audio_currentTime := Fin 61\<rparr>"
  let ?b = "page0\<lparr>seekBar_value := Fin 75\<rparr>"
  have f: "ToString (formatTime (Fin 61)) = ''1:01''" "ToString (formatTime (Fin 75)) = ''1:15''"
    by code_simp+
  have h: "\<not> audio_paused ?a" by simp
  have v: "seekBar_value (on_timeupdate ?a) = Fin 61" "seekBar_value (handleSeek ?b) = Fin 75"
    by (simp_all add: on_timeupdate_def handleSeek_def Let_def)
  show ?thesis
    using display_matches_scrub [of ?a] display_matches_scrub [of ?b] h v f by simp
qed

section \<open>The scenario of the specification\<close>

text \<open>
  A duration of 185 seconds known at the start shows \<open>3:05\<close>; a click on play shows the
  playing glyph and calls \<open>play\<close>; a notification at 42.7 seconds shows \<open>0:42\<close>.
\<close>

lemma scenario:
  "totalTimeDisplay_innerHTML (ready_before_init (Fin 185) page0) = ''3:05'' \<and>
   playBtn_innerHTML (togglePlay (ready_before_init (Fin 185) page0)) = ''||'' \<and>
   audio_calls (togglePlay (ready_before_init (Fin 185) page0)) = [Play] \<and>
   currentTimeDisplay_innerHTML
     (on_timeupdate ((togglePlay (ready_before_init (Fin 185) page0))
        \<lparr>audio_currentTime := Fin (427 / 10)\<rparr>)) = ''0:42''"
  by code_simp

end
